theory Spec2Isabelle
  imports Complex_Main "HOL-Library.Word"
begin

unbundle bit_operations_syntax

section \<open>The Modbus client of the Eidos RCS manipulator\<close>

text \<open>
  A shallow embedding of \<^verbatim>\<open>src/client/rcs_modbus_client.py\<close> (class
  \<^verbatim>\<open>RCSModbusClient\<close>) and of \<^verbatim>\<open>main.py\<close>. Every method becomes a function
  on an explicit world: the calls made on the Modbus client object, the replies that
  object gives, the log and console output, and the operator's pending input lines.
  Every exception of the source is a value of type \<open>error\<close>.
\<close>

subsection \<open>Values\<close>

type_synonym byte = "8 word"
type_synonym register = "16 word"

text \<open>
  A coordinate travels as an IEEE-754 single-precision number. A value of that format is
  represented by its 32-bit pattern, the four bytes \<^verbatim>\<open>struct.pack("!f", v)\<close> yields,
  most significant bit first; no floating-point arithmetic is performed on it anywhere in
  the client.
\<close>

type_synonym float32 = "32 word"

text \<open>
  The Python values that reach the client as coordinates, from a caller or from the
  calibration section of the YAML file: numbers and (nested) lists. A number is
  represented by what \<^verbatim>\<open>struct.pack("!f", v)\<close> makes of it. \<open>PyFloat p\<close> is a float
  that is stored as the pattern \<open>p\<close> (infinities and NaN have patterns too). \<open>PyHuge\<close>
  is a finite float beyond the single-precision range, such as \<^verbatim>\<open>1e39\<close>: its
  magnitude is at least \<open>2^128 - 2^103\<close>, the conversion to single precision gives an
  infinity, and \<^verbatim>\<open>struct.pack\<close> raises \<^verbatim>\<open>OverflowError\<close>. Formatting such a number
  for a log line works as for any other. \<^verbatim>\<open>home_position\<close> is a list of numbers,
  \<^verbatim>\<open>cone_positions\<close> a list of such lists.
\<close>

datatype pyval = PyFloat float32 | PyHuge | PyList "pyval list"

text \<open>The values of the dict \<^verbatim>\<open>get_status\<close> returns: a Python int or a Python str.\<close>

datatype pyobj = PyInt int | PyStr string

datatype error =
    FileNotFoundError
  | KeyError string
  | IndexError
  | TypeError
  | AttributeError
  | StructError
  | OverflowError
  | ValueError string
  | ConnectionError string
  | ModbusException string
  | EOFError
  | UnboundLocalError string
  | ModelError string

subsection \<open>Text of integers\<close>

definition digit_char :: "nat \<Rightarrow> char" where
  "digit_char d = ''0123456789'' ! d"

text \<open>\<^verbatim>\<open>str(n)\<close> for a Python int: decimal digits, a minus sign when negative.\<close>

fun digits10 :: "nat \<Rightarrow> string" where
  "digits10 n = (if n < 10 then [digit_char n] else digits10 (n div 10) @ [digit_char (n mod 10)])"

definition str_int :: "int \<Rightarrow> string" where
  "str_int n = (if n < 0 then CHR ''-'' # digits10 (nat (- n)) else digits10 (nat n))"

text \<open>\<^verbatim>\<open>bin(n)\<close>: the prefix \<^verbatim>\<open>0b\<close>, then the binary digits without leading zeros.\<close>

fun digits2 :: "nat \<Rightarrow> string" where
  "digits2 n = (if n < 2 then [digit_char n] else digits2 (n div 2) @ [digit_char (n mod 2)])"

definition bin :: "int \<Rightarrow> string" where
  "bin n = (if n < 0 then ''-0b'' @ digits2 (nat (- n)) else ''0b'' @ digits2 (nat n))"

text \<open>
  The yardstick for \<open>bin\<close>: the integer a binary literal denotes, read digit by digit
  from the left (\<^verbatim>\<open>int(s, 2)\<close>). \<open>None\<close> where the text is not such a literal.
\<close>

fun binary_value :: "nat \<Rightarrow> string \<Rightarrow> nat option" where
  "binary_value acc [] = Some acc"
| "binary_value acc (c # cs) =
     (if c = CHR ''0'' then binary_value (2 * acc) cs
      else if c = CHR ''1'' then binary_value (2 * acc + 1) cs
      else None)"

fun int_of_binary :: "string \<Rightarrow> int option" where
  "int_of_binary (c0 # c1 # c2 # ds) =
     (if c0 = CHR ''-'' \<and> c1 = CHR ''0'' \<and> c2 = CHR ''b'' \<and> ds \<noteq> []
      then map_option (\<lambda>n. - int n) (binary_value 0 ds)
      else if c0 = CHR ''0'' \<and> c1 = CHR ''b''
      then map_option int (binary_value 0 (c2 # ds))
      else None)"
| "int_of_binary _ = None"

declare digits10.simps [simp del]
declare digits2.simps [simp del]

subsection \<open>The register payload of a 32-bit float\<close>

text \<open>
  Modelled from the spec: \<^verbatim>\<open>BinaryPayloadBuilder\<close> is pymodbus code, not part of the
  repository. The spec (4.2) and the docstring of \<^verbatim>\<open>_write_float\<close> fix what it does for
  \<^verbatim>\<open>byteorder=Endian.BIG, wordorder=Endian.LITTLE\<close>: the IEEE-754 pattern is cut into
  two 16-bit words, the words are put in the order the word order asks for (little: low
  half first), each word is laid out in the byte order asked for, and
  \<^verbatim>\<open>to_registers\<close> reads the buffer back two bytes at a time, big-endian.
\<close>

datatype endian = Big | Little

definition pack_be32 :: "float32 \<Rightarrow> byte list" where
  "pack_be32 v = [ucast (drop_bit 24 v), ucast (drop_bit 16 v), ucast (drop_bit 8 v), ucast v]"

definition unpack_be16 :: "byte \<Rightarrow> byte \<Rightarrow> register" where
  "unpack_be16 hi lo = push_bit 8 (ucast hi) OR ucast lo"

definition pack16 :: "endian \<Rightarrow> register \<Rightarrow> byte list" where
  "pack16 byteorder w =
     (case byteorder of
        Big \<Rightarrow> [ucast (drop_bit 8 w), ucast w]
      | Little \<Rightarrow> [ucast w, ucast (drop_bit 8 w)])"

fun build :: "byte list \<Rightarrow> (byte \<times> byte) list" where
  "build [] = []"
| "build [b] = [(b, 0)]"
| "build (b1 # b2 # bs) = (b1, b2) # build bs"

definition pack_words :: "endian \<Rightarrow> endian \<Rightarrow> float32 \<Rightarrow> byte list" where
  "pack_words byteorder wordorder v =
     (let payload = map (\<lambda>(hi, lo). unpack_be16 hi lo) (build (pack_be32 v));
          payload = (if wordorder = Little then rev payload else payload)
      in concat (map (pack16 byteorder) payload))"

definition to_registers :: "byte list \<Rightarrow> register list" where
  "to_registers buffer = map (\<lambda>(hi, lo). unpack_be16 hi lo) (build buffer)"

text \<open>The payload \<^verbatim>\<open>_write_float\<close> builds for a value, before it is written.\<close>

definition encodeFloat32 :: "float32 \<Rightarrow> register list" where
  "encodeFloat32 v = to_registers (pack_words Big Little v)"

text \<open>
  Modelled from the spec: the repository has no decoder. The spec (4.2) says the first
  register holds the low half of the float and the second the high half; the decoder
  puts the two halves back together, and rejects anything but two registers.
\<close>

fun decodeFloat32 :: "register list \<Rightarrow> float32 option" where
  "decodeFloat32 [word0, word1] = Some (push_bit 16 (ucast word1) OR ucast word0)"
| "decodeFloat32 _ = None"

subsection \<open>The world\<close>

text \<open>
  The calls the client makes on its \<^verbatim>\<open>ModbusTcpClient\<close>, with their arguments as
  written in the source: \<^verbatim>\<open>write_register(address, value, unit)\<close>,
  \<^verbatim>\<open>write_registers(address, payload, unit)\<close>,
  \<^verbatim>\<open>read_holding_registers(address, count, unit)\<close>.
\<close>

datatype call =
    Connect
  | WriteRegister int int int
  | WriteRegisters int "register list" int
  | ReadHoldingRegisters int int int
  | Close

text \<open>
  What the Modbus client object answers: the call completes (\<^verbatim>\<open>connect()\<close> returns
  true, a write is acknowledged), \<^verbatim>\<open>connect()\<close> returns false, a read response with
  its registers, a response whose \<^verbatim>\<open>isError()\<close> holds (with its text), or an
  exception raised by the transport (with its text).
\<close>

datatype reply =
    Completed
  | Refused
  | Registers "int list"
  | ExceptionResponse string
  | Raises string

text \<open>The records the source hands to the logger; the number formatting is the logger's.\<close>

datatype message =
    Connected
  | ErrorsReset
  | DrivesEnabled
  | StartedProgram int
  | MoveCommand pyval pyval pyval
  | ReturningHome
  | CalibrationStarting
  | MoveToCone nat pyval pyval pyval
  | CalibrationRecorded
  | ConnectionClosed
  | ModbusClientError error
  | RuntimeError error

datatype out =
    Info message
  | Err message
  | Prompt string
  | Sleep nat
  | LoadModel string
  | DestroyAllWindows

text \<open>
  \<open>wire\<close> records every call made on the Modbus client, in order, also one that raises;
  \<open>replies\<close> gives the answer to the n-th call (a recording test double with scripted
  answers); \<open>console\<close> collects log records, prompts and waits (in milliseconds);
  \<open>stdin\<close> holds the lines the operator will type.
\<close>

record world =
  wire :: "call list"
  replies :: "nat \<Rightarrow> reply"
  console :: "out list"
  stdin :: "string list"

type_synonym 'a io = "world \<Rightarrow> (error + 'a) \<times> world"

definition io_return :: "'a \<Rightarrow> 'a io" where
  "io_return x w = (Inr x, w)"

definition io_raise :: "error \<Rightarrow> 'a io" where
  "io_raise e w = (Inl e, w)"

definition io_bind :: "'a io \<Rightarrow> ('a \<Rightarrow> 'b io) \<Rightarrow> 'b io" where
  "io_bind m f w = (case m w of (Inl e, w') \<Rightarrow> (Inl e, w') | (Inr x, w') \<Rightarrow> f x w')"

definition io_then :: "'a io \<Rightarrow> 'b io \<Rightarrow> 'b io" where
  "io_then m k = io_bind m (\<lambda>_. k)"

definition transport :: "call \<Rightarrow> reply io" where
  "transport c w =
     (let r = replies w (length (wire w));
          w' = w\<lparr>wire := wire w @ [c]\<rparr>
      in case r of Raises e \<Rightarrow> (Inl (ModbusException e), w') | _ \<Rightarrow> (Inr r, w'))"

definition emit :: "out \<Rightarrow> unit io" where
  "emit x w = (Inr (), w\<lparr>console := console w @ [x]\<rparr>)"

definition input_line :: "string \<Rightarrow> string io" where
  "input_line prompt w =
     (case stdin w of
        [] \<Rightarrow> (Inl EOFError, w\<lparr>console := console w @ [Prompt prompt]\<rparr>)
      | l # ls \<Rightarrow> (Inr l, w\<lparr>console := console w @ [Prompt prompt], stdin := ls\<rparr>))"

text \<open>\<^verbatim>\<open>d[k]\<close> on a dict: \<^verbatim>\<open>KeyError\<close> when the key is missing.\<close>

definition lookup :: "(string \<rightharpoonup> 'a) \<Rightarrow> string \<Rightarrow> 'a io" where
  "lookup d k = (case d k of None \<Rightarrow> io_raise (KeyError k) | Some v \<Rightarrow> io_return v)"

text \<open>\<^verbatim>\<open>v[i]\<close> for a non-negative index.\<close>

definition getitem :: "pyval \<Rightarrow> nat \<Rightarrow> pyval io" where
  "getitem v i =
     (case v of
        PyFloat _ \<Rightarrow> io_raise TypeError
      | PyHuge \<Rightarrow> io_raise TypeError
      | PyList xs \<Rightarrow> (if i < length xs then io_return (xs ! i) else io_raise IndexError))"

text \<open>The calls an operation issues when run from a world.\<close>

definition issued :: "'a io \<Rightarrow> world \<Rightarrow> call list" where
  "issued m w = drop (length (wire w)) (wire (snd (m w)))"

fun raises :: "reply \<Rightarrow> bool" where
  "raises (Raises _) = True"
| "raises _ = False"

subsection \<open>Configuration\<close>

record RCSConfig =
  host :: string
  port :: int
  timeout :: rat
  unit_id :: int
  registers :: "string \<rightharpoonup> int"
  calibration :: "string \<rightharpoonup> pyval"

text \<open>
  The parsed YAML document: each section and each entry of \<^verbatim>\<open>rcs\<close> may be missing
  (\<open>None\<close>). An empty file is the document with no section
  (\<^verbatim>\<open>yaml.safe_load(f) or {}\<close>).
\<close>

record rcs_section =
  host_entry :: "string option"
  port_entry :: "int option"
  timeout_entry :: "rat option"
  unit_id_entry :: "int option"

record yaml_data =
  rcs_entry :: "rcs_section option"
  registers_entry :: "(string \<rightharpoonup> int) option"
  calibration_entry :: "(string \<rightharpoonup> pyval) option"

definition entry :: "string \<Rightarrow> 'a option \<Rightarrow> error + 'a" where
  "entry k v = (case v of None \<Rightarrow> Inl (KeyError k) | Some x \<Rightarrow> Inr x)"

definition and_then :: "error + 'a \<Rightarrow> ('a \<Rightarrow> error + 'b) \<Rightarrow> error + 'b" where
  "and_then r f = (case r of Inl e \<Rightarrow> Inl e | Inr x \<Rightarrow> f x)"

text \<open>
  \<^verbatim>\<open>_load_config\<close>: the file may not exist (\<open>None\<close>); the keyword arguments of
  \<^verbatim>\<open>RCSConfig(...)\<close> are evaluated in the order written. The register map and the
  calibration section are stored as they are.
\<close>

definition load_config :: "yaml_data option \<Rightarrow> error + RCSConfig" where
  "load_config file =
     (case file of
        None \<Rightarrow> Inl FileNotFoundError
      | Some data \<Rightarrow>
          and_then (and_then (entry ''rcs'' (rcs_entry data)) (\<lambda>s. entry ''host'' (host_entry s))) (\<lambda>h.
          and_then (and_then (entry ''rcs'' (rcs_entry data)) (\<lambda>s. entry ''port'' (port_entry s))) (\<lambda>p.
          and_then (and_then (entry ''rcs'' (rcs_entry data)) (\<lambda>s. entry ''timeout'' (timeout_entry s))) (\<lambda>t.
          and_then (and_then (entry ''rcs'' (rcs_entry data)) (\<lambda>s. entry ''unit_id'' (unit_id_entry s))) (\<lambda>u.
          and_then (entry ''registers'' (registers_entry data)) (\<lambda>rs.
          and_then (entry ''calibration'' (calibration_entry data)) (\<lambda>cal.
          Inr \<lparr>host = h, port = p, timeout = t, unit_id = u, registers = rs, calibration = cal\<rparr>)))))))"

subsection \<open>The client\<close>

definition connect :: "RCSConfig \<Rightarrow> unit io" where
  "connect config =
     io_bind (transport Connect) (\<lambda>r.
       if r = Refused
       then io_raise (ConnectionError
              (''Failed to connect to RCS: '' @ host config @ '':'' @ str_int (port config)))
       else emit (Info Connected))"

text \<open>
  \<^verbatim>\<open>__init__\<close>: the client object is its configuration (the Modbus client it owns is
  the world's); constructing the \<^verbatim>\<open>ModbusTcpClient\<close> performs no call on it.
\<close>

definition init :: "yaml_data option \<Rightarrow> RCSConfig io" where
  "init file =
     (case load_config file of
        Inl e \<Rightarrow> io_raise e
      | Inr config \<Rightarrow> io_then (connect config) (io_return config))"

text \<open>
  \<^verbatim>\<open>_write_float\<close>: the builder runs before the write, so a value that
  \<^verbatim>\<open>struct.pack\<close> refuses fails with no call made: \<^verbatim>\<open>OverflowError\<close> for a float
  beyond the single-precision range, \<^verbatim>\<open>struct.error\<close> for a value that is not a number.
\<close>

definition write_float :: "RCSConfig \<Rightarrow> int \<Rightarrow> pyval \<Rightarrow> unit io" where
  "write_float config address val =
     (case val of
        PyList _ \<Rightarrow> io_raise StructError
      | PyHuge \<Rightarrow> io_raise OverflowError
      | PyFloat v \<Rightarrow>
          io_then (transport (WriteRegisters address (encodeFloat32 v) (unit_id config)))
                  (io_return ()))"

text \<open>\<^verbatim>\<open>_write_int\<close>: the response of \<^verbatim>\<open>write_register\<close> is not looked at.\<close>

definition write_int :: "RCSConfig \<Rightarrow> int \<Rightarrow> int \<Rightarrow> unit io" where
  "write_int config address val =
     io_then (transport (WriteRegister address val (unit_id config))) (io_return ())"

definition read_int :: "RCSConfig \<Rightarrow> int \<Rightarrow> int io" where
  "read_int config address =
     io_bind (transport (ReadHoldingRegisters address 1 (unit_id config))) (\<lambda>result.
       case result of
         ExceptionResponse detail \<Rightarrow>
           io_raise (ValueError (''Error reading register '' @ str_int address @ '': '' @ detail))
       | Registers rs \<Rightarrow> (case rs of [] \<Rightarrow> io_raise IndexError | r # _ \<Rightarrow> io_return r)
       | _ \<Rightarrow> io_raise AttributeError)"

definition reset_errors :: "RCSConfig \<Rightarrow> unit io" where
  "reset_errors config =
     io_bind (lookup (registers config) ''reset_errors'') (\<lambda>a1.
     io_then (write_int config a1 1) (
     io_then (emit (Sleep 100)) (
     io_bind (lookup (registers config) ''reset_errors'') (\<lambda>a2.
     io_then (write_int config a2 0) (
     emit (Info ErrorsReset))))))"

definition enable_drives :: "RCSConfig \<Rightarrow> unit io" where
  "enable_drives config =
     io_bind (lookup (registers config) ''enable_drives'') (\<lambda>a.
     io_then (write_int config a 1) (
     emit (Info DrivesEnabled)))"

definition start_program :: "RCSConfig \<Rightarrow> int \<Rightarrow> unit io" where
  "start_program config program_id =
     io_bind (lookup (registers config) ''program_number'') (\<lambda>a1.
     io_then (write_int config a1 program_id) (
     io_bind (lookup (registers config) ''start_program'') (\<lambda>a2.
     io_then (write_int config a2 1) (
     io_then (emit (Sleep 100)) (
     io_bind (lookup (registers config) ''start_program'') (\<lambda>a3.
     io_then (write_int config a3 0) (
     emit (Info (StartedProgram program_id)))))))))"

text \<open>
  The log lines of \<^verbatim>\<open>move_to_xyz\<close> and \<^verbatim>\<open>calibrate_base\<close> format their arguments
  as numbers (\<^verbatim>\<open>{x:.2f}\<close>): \<^verbatim>\<open>TypeError\<close> for a list, any float is accepted.
\<close>

definition as_number :: "pyval \<Rightarrow> pyval io" where
  "as_number v = (case v of PyList _ \<Rightarrow> io_raise TypeError | _ \<Rightarrow> io_return v)"

definition move_to_xyz :: "RCSConfig \<Rightarrow> pyval \<Rightarrow> pyval \<Rightarrow> pyval \<Rightarrow> unit io" where
  "move_to_xyz config x y z =
     io_bind (lookup (registers config) ''target_x'') (\<lambda>ax.
     io_then (write_float config ax x) (
     io_bind (lookup (registers config) ''target_y'') (\<lambda>ay.
     io_then (write_float config ay y) (
     io_bind (lookup (registers config) ''target_z'') (\<lambda>az.
     io_then (write_float config az z) (
     io_then (start_program config 1) (
     io_bind (as_number x) (\<lambda>fx.
     io_bind (as_number y) (\<lambda>fy.
     io_bind (as_number z) (\<lambda>fz.
     emit (Info (MoveCommand fx fy fz))))))))))))"

definition go_home :: "RCSConfig \<Rightarrow> unit io" where
  "go_home config =
     io_bind (lookup (calibration config) ''home_position'') (\<lambda>pos.
     io_bind (getitem pos 0) (\<lambda>x.
     io_bind (getitem pos 1) (\<lambda>y.
     io_bind (getitem pos 2) (\<lambda>z.
     io_then (move_to_xyz config x y z) (
     emit (Info ReturningHome))))))"

text \<open>
  One round of the loop of \<^verbatim>\<open>calibrate_base\<close>: \<^verbatim>\<open>x, y, z = point\<close> needs exactly
  three items, the log line formats them as numbers, then the operator is prompted.
\<close>

definition cone_step :: "nat \<Rightarrow> pyval \<Rightarrow> unit io" where
  "cone_step i point =
     (case point of
        PyFloat _ \<Rightarrow> io_raise TypeError
      | PyHuge \<Rightarrow> io_raise TypeError
      | PyList items \<Rightarrow>
          (case items of
             [x, y, z] \<Rightarrow>
               io_bind (as_number x) (\<lambda>fx.
               io_bind (as_number y) (\<lambda>fy.
               io_bind (as_number z) (\<lambda>fz.
               io_then (emit (Info (MoveToCone (i + 1) fx fy fz))) (
               io_then (input_line ''Press Enter when in position...'') (
               io_return ())))))
           | _ \<Rightarrow> io_raise (ValueError ''unpack'')))"

fun cone_loop :: "nat \<Rightarrow> pyval list \<Rightarrow> unit io" where
  "cone_loop i [] = io_return ()"
| "cone_loop i (point # points) = io_then (cone_step i point) (cone_loop (Suc i) points)"

definition calibrate_base :: "RCSConfig \<Rightarrow> unit io" where
  "calibrate_base config =
     io_then (emit (Info CalibrationStarting)) (
     io_bind (lookup (calibration config) ''cone_positions'') (\<lambda>cones.
     case cones of
       PyFloat _ \<Rightarrow> io_raise TypeError
     | PyHuge \<Rightarrow> io_raise TypeError
     | PyList points \<Rightarrow>
         io_then (cone_loop 0 points) (emit (Info CalibrationRecorded))))"

text \<open>
  \<^verbatim>\<open>get_status\<close> is annotated \<^verbatim>\<open>-> Dict[str, str]\<close>; it returns the dict
  \<^verbatim>\<open>{"status_word": status, "binary": bin(status)}\<close>, whose first value is the int
  read from the register and whose second value is a str.
\<close>

record status =
  status_word :: pyobj
  binary :: pyobj

definition get_status :: "RCSConfig \<Rightarrow> status io" where
  "get_status config =
     io_bind (lookup (registers config) ''status_word'') (\<lambda>a.
     io_bind (read_int config a) (\<lambda>s.
     io_return \<lparr>status_word = PyInt s, binary = PyStr (bin s)\<rparr>))"

definition close :: "RCSConfig \<Rightarrow> unit io" where
  "close config = io_then (transport Close) (emit (Info ConnectionClosed))"

subsection \<open>The entry point\<close>

text \<open>
  \<^verbatim>\<open>main\<close>: the local \<^verbatim>\<open>rcs\<close> is bound only when the constructor returns; each use of
  it while unbound raises \<^verbatim>\<open>UnboundLocalError\<close>. \<^verbatim>\<open>except Exception\<close> catches and
  logs; \<^verbatim>\<open>finally\<close> runs in every case and its own exception leaves \<^verbatim>\<open>main\<close>. Loading
  the vision model is outside the repository: its outcome is the argument \<open>yolo\<close>.
\<close>

definition bound :: "RCSConfig option \<Rightarrow> RCSConfig io" where
  "bound rcs = (case rcs of None \<Rightarrow> io_raise (UnboundLocalError ''rcs'') | Some c \<Rightarrow> io_return c)"

definition catch :: "'a io \<Rightarrow> (error \<Rightarrow> 'a io) \<Rightarrow> 'a io" where
  "catch m h w = (case m w of (Inl e, w') \<Rightarrow> h e w' | (Inr x, w') \<Rightarrow> (Inr x, w'))"

definition load_model :: "error option \<Rightarrow> unit io" where
  "load_model yolo =
     io_then (emit (LoadModel ''yolov8n.pt''))
             (case yolo of None \<Rightarrow> io_return () | Some e \<Rightarrow> io_raise e)"

definition main :: "yaml_data option \<Rightarrow> error option \<Rightarrow> unit io" where
  "main file yolo =
     io_bind (catch (io_bind (init file) (\<lambda>c. io_return (Some c)))
                    (\<lambda>e. io_then (emit (Err (ModbusClientError e))) (io_return None))) (\<lambda>rcs.
     io_then (catch (io_then (io_bind (bound rcs) reset_errors) (
                     io_then (io_bind (bound rcs) enable_drives) (
                     io_then (io_bind (bound rcs) go_home) (
                     io_then (emit (Sleep 2000)) (
                     load_model yolo)))))
                    (\<lambda>e. emit (Err (RuntimeError e)))) (
     io_then (io_bind (bound rcs) close) (
     emit DestroyAllWindows)))"

subsection \<open>Example configurations and transports\<close>

text \<open>
  A register map with the eight names the client uses, a calibration section
  (home position 300.0, 0.0, 500.0 and three cones, as IEEE-754 patterns), and worlds
  whose Modbus client gives the same answer to every call, or raises at one call.
\<close>

definition example_registers :: "string \<rightharpoonup> int" where
  "example_registers = map_of
     [(''reset_errors'', 100), (''enable_drives'', 101), (''program_number'', 107),
      (''start_program'', 108), (''target_x'', 200), (''target_y'', 202),
      (''target_z'', 204), (''status_word'', 300)]"

definition registers_without_status :: "string \<rightharpoonup> int" where
  "registers_without_status = map_of
     [(''reset_errors'', 100), (''enable_drives'', 101), (''program_number'', 107),
      (''start_program'', 108), (''target_x'', 200), (''target_y'', 202),
      (''target_z'', 204)]"

definition example_calibration :: "string \<rightharpoonup> pyval" where
  "example_calibration = map_of
     [(''home_position'', PyList [PyFloat 0x43960000, PyFloat 0, PyFloat 0x43FA0000]),
      (''cone_positions'',
         PyList [PyList [PyFloat 0x42C80000, PyFloat 0, PyFloat 0],
                 PyList [PyFloat 0, PyFloat 0x42C80000, PyFloat 0],
                 PyList [PyFloat 0xC2C80000, PyFloat 0, PyFloat 0]])]"

definition example_config :: RCSConfig where
  "example_config =
     \<lparr>host = ''192.168.0.10'', port = 502, timeout = 3, unit_id = 1,
      registers = example_registers, calibration = example_calibration\<rparr>"

definition config_without_status :: RCSConfig where
  "config_without_status =
     \<lparr>host = ''192.168.0.10'', port = 502, timeout = 3, unit_id = 1,
      registers = registers_without_status, calibration = example_calibration\<rparr>"

definition example_yaml :: "(string \<rightharpoonup> int) \<Rightarrow> yaml_data" where
  "example_yaml rs =
     \<lparr>rcs_entry = Some \<lparr>host_entry = Some ''192.168.0.10'', port_entry = Some 502,
                         timeout_entry = Some 3, unit_id_entry = Some 1\<rparr>,
      registers_entry = Some rs,
      calibration_entry = Some example_calibration\<rparr>"

definition answering :: "reply \<Rightarrow> world" where
  "answering r = \<lparr>wire = [], replies = (\<lambda>_. r), console = [], stdin = []\<rparr>"

definition raising_at :: "nat \<Rightarrow> world" where
  "raising_at k =
     \<lparr>wire = [],
      replies = (\<lambda>n. if n = k then Raises ''connection lost'' else Completed),
      console = [], stdin = []\<rparr>"

section \<open>Properties\<close>

subsection \<open>Shared facts\<close>

lemmas io_defs = io_bind_def io_then_def io_return_def io_raise_def lookup_def emit_def

lemmas example_defs = example_config_def example_registers_def example_calibration_def
  answering_def raising_at_def

lemma raises_cases: "raises r \<Longrightarrow> (\<And>e. r = Raises e \<Longrightarrow> P) \<Longrightarrow> P"
  by (cases r) simp_all

lemma write_int_ok:
  "\<not> raises (replies w (length (wire w))) \<Longrightarrow>
   write_int c a v w = (Inr (), w\<lparr>wire := wire w @ [WriteRegister a v (unit_id c)]\<rparr>)"
  by (cases "replies w (length (wire w))") (simp_all add: write_int_def transport_def io_defs)

lemma write_int_raises:
  "replies w (length (wire w)) = Raises e \<Longrightarrow>
   write_int c a v w =
     (Inl (ModbusException e), w\<lparr>wire := wire w @ [WriteRegister a v (unit_id c)]\<rparr>)"
  by (simp add: write_int_def transport_def io_defs)

lemma write_float_ok:
  "\<not> raises (replies w (length (wire w))) \<Longrightarrow>
   write_float c a (PyFloat v) w =
     (Inr (), w\<lparr>wire := wire w @ [WriteRegisters a (encodeFloat32 v) (unit_id c)]\<rparr>)"
  by (cases "replies w (length (wire w))") (simp_all add: write_float_def transport_def io_defs)

lemma write_float_issued:
  "issued (write_float config address (PyFloat v)) w =
     [WriteRegisters address (encodeFloat32 v) (unit_id config)]"
  by (cases "replies w (length (wire w))")
     (simp_all add: write_float_def transport_def io_defs issued_def)

lemma then_emit_wire: "wire (snd (io_then m (emit x) w)) = wire (snd (m w))"
  by (cases "m w"; cases "fst (m w)") (auto simp: io_defs split: sum.splits)

lemma then_emit_fst: "fst (io_then m (emit x) w) = fst (m w)"
  for m :: "unit io"
  by (cases "m w"; cases "fst (m w)") (auto simp: io_defs split: sum.splits)

lemma reset_errors_high_raises:
  assumes "registers c ''reset_errors'' = Some r" and "replies w (length (wire w)) = Raises e"
  shows "reset_errors c w =
           (Inl (ModbusException e), w\<lparr>wire := wire w @ [WriteRegister r 1 (unit_id c)]\<rparr>)"
  using assms by (simp add: reset_errors_def io_defs write_int_raises)

lemma start_program_high_raises:
  assumes "registers c ''program_number'' = Some pn" and "registers c ''start_program'' = Some sp"
    and "\<not> raises (replies w (length (wire w)))"
    and "replies w (Suc (length (wire w))) = Raises e"
  shows "start_program c p w =
           (Inl (ModbusException e),
            w\<lparr>wire := wire w @ [WriteRegister pn p (unit_id c), WriteRegister sp 1 (unit_id c)]\<rparr>)"
  using assms by (simp add: start_program_def io_defs write_int_ok write_int_raises)

lemma write_float_huge: "write_float c a PyHuge w = (Inl OverflowError, w)"
  by (simp add: write_float_def io_defs)

lemma reset_errors_high_returns:
  assumes "registers c ''reset_errors'' = Some r"
    and "\<not> raises (replies w (length (wire w)))"
  shows "issued (reset_errors c) w =
           [WriteRegister r 1 (unit_id c), WriteRegister r 0 (unit_id c)]
       \<and> (fst (reset_errors c w) = Inr ()) = (\<not> raises (replies w (Suc (length (wire w)))))"
proof (cases "raises (replies w (Suc (length (wire w))))")
  case True
  then obtain e where "replies w (Suc (length (wire w))) = Raises e"
    by (rule raises_cases)
  with assms True show ?thesis
    by (simp add: reset_errors_def io_defs write_int_ok write_int_raises issued_def)
next
  case False
  with assms show ?thesis
    by (simp add: reset_errors_def io_defs write_int_ok issued_def)
qed

lemma start_program_high_returns:
  assumes "registers c ''program_number'' = Some pn" and "registers c ''start_program'' = Some sp"
    and "\<not> raises (replies w (length (wire w)))"
    and "\<not> raises (replies w (Suc (length (wire w))))"
  shows "issued (start_program c p) w =
           [WriteRegister pn p (unit_id c), WriteRegister sp 1 (unit_id c),
            WriteRegister sp 0 (unit_id c)]
       \<and> (fst (start_program c p w) = Inr ()) =
           (\<not> raises (replies w (Suc (Suc (length (wire w))))))"
proof (cases "raises (replies w (Suc (Suc (length (wire w)))))")
  case True
  then obtain e where "replies w (Suc (Suc (length (wire w)))) = Raises e"
    by (rule raises_cases)
  with assms True show ?thesis
    by (simp add: start_program_def io_defs write_int_ok write_int_raises issued_def)
next
  case False
  with assms show ?thesis
    by (simp add: start_program_def io_defs write_int_ok issued_def)
qed

lemma str_int_502: "str_int 502 = ''502''"
  by (simp add: str_int_def digits10.simps digit_char_def)

lemma str_int_300: "str_int 300 = ''300''"
  by (simp add: str_int_def digits10.simps digit_char_def)

subsection \<open>The float payload\<close>

lemma unpack_pack16: "unpack_be16 (ucast (drop_bit 8 w)) (ucast w) = (w :: register)"
  unfolding unpack_be16_def
  by (rule bit_word_eqI) (auto simp: bit_simps)

lemma high_half:
  "unpack_be16 (ucast (drop_bit 24 v)) (ucast (drop_bit 16 v)) =
     (ucast (drop_bit 16 (v :: float32)) :: register)"
  unfolding unpack_be16_def
  by (rule bit_word_eqI) (auto simp: bit_simps)

lemma low_half:
  "unpack_be16 (ucast (drop_bit 8 v)) (ucast v) = (ucast (v :: float32) :: register)"
  unfolding unpack_be16_def
  by (rule bit_word_eqI) (auto simp: bit_simps)

lemma join_halves:
  "push_bit 16 (ucast (ucast (drop_bit 16 v) :: register)) OR ucast (ucast v :: register) =
     (v :: float32)"
  by (rule bit_word_eqI) (auto simp: bit_simps)

lemma encodeFloat32_registers: "encodeFloat32 v = [ucast v, ucast (drop_bit 16 v)]"
  by (simp add: encodeFloat32_def to_registers_def pack_words_def pack_be32_def pack16_def
      unpack_pack16 high_half low_half)

lemma pack_words_bytes:
  "pack_words Big Little v =
     [ucast (drop_bit 8 v), ucast v, ucast (drop_bit 24 v), ucast (drop_bit 16 v)]"
proof -
  have a: "(ucast (drop_bit 8 (ucast v :: register)) :: byte) = ucast (drop_bit 8 v)"
    by (rule bit_word_eqI) (auto simp: bit_simps)
  have b: "(ucast (ucast v :: register) :: byte) = ucast v"
    by (rule bit_word_eqI) (auto simp: bit_simps)
  have c: "(ucast (drop_bit 8 (ucast (drop_bit 16 v) :: register)) :: byte) = ucast (drop_bit 24 v)"
    by (rule bit_word_eqI) (auto simp: bit_simps)
  have d: "(ucast (ucast (drop_bit 16 v) :: register) :: byte) = ucast (drop_bit 16 v)"
    by (rule bit_word_eqI) (auto simp: bit_simps)
  show ?thesis
    by (simp add: pack_words_def pack_be32_def pack16_def high_half low_half a b c d)
qed

text \<open>
  Claim C1. For every 32-bit floating-point value \<open>v\<close> (given by its IEEE-754 pattern),
  decoding the registers that \<^verbatim>\<open>_write_float\<close> builds for \<open>v\<close> gives \<open>v\<close> back. The
  payload has two registers: the first holds the low half of the pattern, the second the
  high half; in the builder's buffer each of the two words has its high byte first. These
  two registers are what \<^verbatim>\<open>_write_float\<close> hands to \<^verbatim>\<open>write_registers\<close>, in one call.
  Negative numbers, zero and fractional values are patterns like any other.
\<close>

theorem float32_register_roundtrip:
  "decodeFloat32 (encodeFloat32 v) = Some v
 \<and> encodeFloat32 v = [ucast v, ucast (drop_bit 16 v)]
 \<and> pack_words Big Little v =
       [ucast (drop_bit 8 v), ucast v, ucast (drop_bit 24 v), ucast (drop_bit 16 v)]
 \<and> issued (write_float config address (PyFloat v)) w =
       [WriteRegisters address [ucast v, ucast (drop_bit 16 v)] (unit_id config)]"
  using write_float_issued [of config address v w]
  by (simp add: encodeFloat32_registers join_halves pack_words_bytes)

subsection \<open>Pulses\<close>

text \<open>
  Claim C2, as stated, fails: neither pulse has a guaranteed release. With a transport
  that raises at the write of 1, \<^verbatim>\<open>reset_errors\<close> ends after that one write, and
  \<^verbatim>\<open>start_program\<close> after the program number and the write of 1: the last value
  written to the trigger register is 1 and the exception leaves the method.
\<close>

theorem pulse_left_high_counterexample:
  "fst (reset_errors example_config (raising_at 0)) = Inl (ModbusException ''connection lost'')
 \<and> wire (snd (reset_errors example_config (raising_at 0))) = [WriteRegister 100 1 1]
 \<and> fst (start_program example_config 7 (raising_at 1)) = Inl (ModbusException ''connection lost'')
 \<and> wire (snd (start_program example_config 7 (raising_at 1))) =
       [WriteRegister 107 7 1, WriteRegister 108 1 1]"
  by (simp add: reset_errors_def start_program_def write_int_def transport_def io_defs
      example_defs)

text \<open>
  Claim C2, amended. \<^verbatim>\<open>reset_errors\<close> and \<^verbatim>\<open>start_program\<close> write 0 to their
  trigger register in every execution in which the write of 1 returns, whatever the
  transport does at any other call: the write of 0 is then the last call issued, and the
  method returns normally unless that very write raises. Only when the transport raises
  at the write of 1 is the exception propagated with the write of 1 as the last call and
  no 0 written. A raise at the write of the program number ends \<^verbatim>\<open>start_program\<close>
  before the trigger is touched.
\<close>

theorem pulse_returns_low_unless_high_write_raises:
  assumes r: "registers config ''reset_errors'' = Some r"
    and pn: "registers config ''program_number'' = Some pn"
    and sp: "registers config ''start_program'' = Some sp"
  shows "(\<not> raises (replies w (length (wire w))) \<longrightarrow>
            issued (reset_errors config) w =
              [WriteRegister r 1 (unit_id config), WriteRegister r 0 (unit_id config)]
          \<and> (fst (reset_errors config w) = Inr ()) =
              (\<not> raises (replies w (Suc (length (wire w))))))
       \<and> (replies w (length (wire w)) = Raises e \<longrightarrow>
            fst (reset_errors config w) = Inl (ModbusException e)
          \<and> issued (reset_errors config) w = [WriteRegister r 1 (unit_id config)])
       \<and> (\<not> raises (replies w (length (wire w))) \<and> \<not> raises (replies w (Suc (length (wire w)))) \<longrightarrow>
            issued (start_program config program_id) w =
              [WriteRegister pn program_id (unit_id config),
               WriteRegister sp 1 (unit_id config), WriteRegister sp 0 (unit_id config)]
          \<and> (fst (start_program config program_id w) = Inr ()) =
              (\<not> raises (replies w (Suc (Suc (length (wire w)))))))
       \<and> (\<not> raises (replies w (length (wire w))) \<and> replies w (Suc (length (wire w))) = Raises e \<longrightarrow>
            fst (start_program config program_id w) = Inl (ModbusException e)
          \<and> issued (start_program config program_id) w =
              [WriteRegister pn program_id (unit_id config), WriteRegister sp 1 (unit_id config)])
       \<and> (replies w (length (wire w)) = Raises e \<longrightarrow>
            fst (start_program config program_id w) = Inl (ModbusException e)
          \<and> issued (start_program config program_id) w =
              [WriteRegister pn program_id (unit_id config)])"
proof (intro conjI impI)
  assume h: "\<not> raises (replies w (length (wire w)))"
  show "issued (reset_errors config) w =
          [WriteRegister r 1 (unit_id config), WriteRegister r 0 (unit_id config)]"
    using reset_errors_high_returns [OF r h] by simp
  show "(fst (reset_errors config w) = Inr ()) = (\<not> raises (replies w (Suc (length (wire w)))))"
    using reset_errors_high_returns [OF r h] by simp
next
  assume h: "replies w (length (wire w)) = Raises e"
  show "fst (reset_errors config w) = Inl (ModbusException e)"
    using reset_errors_high_raises [OF r h] by simp
  show "issued (reset_errors config) w = [WriteRegister r 1 (unit_id config)]"
    using reset_errors_high_raises [OF r h] by (simp add: issued_def)
next
  assume h: "\<not> raises (replies w (length (wire w))) \<and> \<not> raises (replies w (Suc (length (wire w))))"
  then have h1: "\<not> raises (replies w (length (wire w)))"
    and h2: "\<not> raises (replies w (Suc (length (wire w))))"
    by simp_all
  show "issued (start_program config program_id) w =
          [WriteRegister pn program_id (unit_id config),
           WriteRegister sp 1 (unit_id config), WriteRegister sp 0 (unit_id config)]"
    using start_program_high_returns [OF pn sp h1 h2] by simp
  show "(fst (start_program config program_id w) = Inr ()) =
          (\<not> raises (replies w (Suc (Suc (length (wire w))))))"
    using start_program_high_returns [OF pn sp h1 h2] by simp
next
  assume h: "\<not> raises (replies w (length (wire w))) \<and> replies w (Suc (length (wire w))) = Raises e"
  then have h1: "\<not> raises (replies w (length (wire w)))"
    and h2: "replies w (Suc (length (wire w))) = Raises e"
    by simp_all
  show "fst (start_program config program_id w) = Inl (ModbusException e)"
    using start_program_high_raises [OF pn sp h1 h2] by simp
  show "issued (start_program config program_id) w =
          [WriteRegister pn program_id (unit_id config), WriteRegister sp 1 (unit_id config)]"
    using start_program_high_raises [OF pn sp h1 h2] by (simp add: issued_def)
next
  assume h: "replies w (length (wire w)) = Raises e"
  show "fst (start_program config program_id w) = Inl (ModbusException e)"
    using pn h by (simp add: start_program_def io_defs write_int_raises)
  show "issued (start_program config program_id) w =
          [WriteRegister pn program_id (unit_id config)]"
    using pn h by (simp add: start_program_def io_defs write_int_raises issued_def)
qed

theorem pulse_returns_low_unless_high_write_raises_witness:
  "issued (reset_errors example_config) (answering Completed) =
       [WriteRegister 100 1 1, WriteRegister 100 0 1]
 \<and> fst (reset_errors example_config (answering Completed)) = Inr ()
 \<and> issued (reset_errors example_config) (raising_at 5) =
       [WriteRegister 100 1 1, WriteRegister 100 0 1]
 \<and> fst (reset_errors example_config (raising_at 5)) = Inr ()
 \<and> issued (reset_errors example_config) (raising_at 1) =
       [WriteRegister 100 1 1, WriteRegister 100 0 1]
 \<and> fst (reset_errors example_config (raising_at 1)) \<noteq> Inr ()
 \<and> fst (reset_errors example_config (raising_at 0)) = Inl (ModbusException ''connection lost'')
 \<and> issued (reset_errors example_config) (raising_at 0) = [WriteRegister 100 1 1]
 \<and> issued (start_program example_config 7) (answering Completed) =
       [WriteRegister 107 7 1, WriteRegister 108 1 1, WriteRegister 108 0 1]
 \<and> fst (start_program example_config 7 (answering Completed)) = Inr ()
 \<and> issued (start_program example_config 7) (raising_at 2) =
       [WriteRegister 107 7 1, WriteRegister 108 1 1, WriteRegister 108 0 1]
 \<and> fst (start_program example_config 7 (raising_at 2)) \<noteq> Inr ()
 \<and> fst (start_program example_config 7 (raising_at 1)) = Inl (ModbusException ''connection lost'')
 \<and> issued (start_program example_config 7) (raising_at 1) =
       [WriteRegister 107 7 1, WriteRegister 108 1 1]
 \<and> fst (start_program example_config 7 (raising_at 0)) = Inl (ModbusException ''connection lost'')
 \<and> issued (start_program example_config 7) (raising_at 0) = [WriteRegister 107 7 1]"
  using pulse_returns_low_unless_high_write_raises
      [of example_config 100 107 108 "answering Completed" "''connection lost''" 7]
    pulse_returns_low_unless_high_write_raises
      [of example_config 100 107 108 "raising_at 5" "''connection lost''" 7]
    pulse_returns_low_unless_high_write_raises
      [of example_config 100 107 108 "raising_at 0" "''connection lost''" 7]
    pulse_returns_low_unless_high_write_raises
      [of example_config 100 107 108 "raising_at 1" "''connection lost''" 7]
    pulse_returns_low_unless_high_write_raises
      [of example_config 100 107 108 "raising_at 2" "''connection lost''" 7]
  by (simp add: example_defs)

text \<open>
  Claim C3. Whatever the transport answers, the calls \<^verbatim>\<open>start_program(program_id)\<close>
  issues are an initial part of: write \<open>program_id\<close> to \<^verbatim>\<open>program_number\<close>, write 1 to
  \<^verbatim>\<open>start_program\<close>, write 0 to \<^verbatim>\<open>start_program\<close>. The program number is always
  the first call, so the trigger goes high only after it; a run that returns normally
  has issued all three.
\<close>

theorem start_program_number_before_trigger:
  assumes pn: "registers config ''program_number'' = Some pn"
    and sp: "registers config ''start_program'' = Some sp"
  shows "issued (start_program config program_id) w \<in>
           {[WriteRegister pn program_id (unit_id config)],
            [WriteRegister pn program_id (unit_id config), WriteRegister sp 1 (unit_id config)],
            [WriteRegister pn program_id (unit_id config), WriteRegister sp 1 (unit_id config),
             WriteRegister sp 0 (unit_id config)]}
         \<and> (fst (start_program config program_id w) = Inr () \<longrightarrow>
              issued (start_program config program_id) w =
                [WriteRegister pn program_id (unit_id config), WriteRegister sp 1 (unit_id config),
                 WriteRegister sp 0 (unit_id config)])"
proof -
  let ?n = "length (wire w)"
  consider (a) e where "replies w ?n = Raises e"
    | (b) e where "\<not> raises (replies w ?n)" "replies w (Suc ?n) = Raises e"
    | (c) e where "\<not> raises (replies w ?n)" "\<not> raises (replies w (Suc ?n))"
        "replies w (Suc (Suc ?n)) = Raises e"
    | (d) "\<not> raises (replies w ?n)" "\<not> raises (replies w (Suc ?n))"
        "\<not> raises (replies w (Suc (Suc ?n)))"
    by (metis raises_cases)
  then show ?thesis
  proof cases
    case a
    then show ?thesis using pn sp
      by (simp add: start_program_def io_defs write_int_raises issued_def)
  next
    case b
    then show ?thesis using pn sp
      by (simp add: start_program_def io_defs write_int_raises write_int_ok issued_def)
  next
    case c
    then show ?thesis using pn sp
      by (simp add: start_program_def io_defs write_int_raises write_int_ok issued_def)
  next
    case d
    then show ?thesis using pn sp
      by (simp add: start_program_def io_defs write_int_raises write_int_ok issued_def)
  qed
qed

theorem start_program_number_before_trigger_witness:
  "fst (start_program example_config 7 (answering Completed)) = Inr ()
 \<and> issued (start_program example_config 7) (answering Completed) =
      [WriteRegister 107 7 1, WriteRegister 108 1 1, WriteRegister 108 0 1]"
proof -
  have "fst (start_program example_config 7 (answering Completed)) = Inr ()"
    by (simp add: start_program_def write_int_def transport_def io_defs example_defs)
  then show ?thesis
    using start_program_number_before_trigger [of example_config 107 108 7 "answering Completed"]
    by (simp add: example_defs)
qed

subsection \<open>Construction\<close>

lemma load_config_sections:
  assumes "rcs_entry data = Some s" and "host_entry s = Some h" and "port_entry s = Some p"
    and "timeout_entry s = Some t" and "unit_id_entry s = Some u"
    and "registers_entry data = Some rs" and "calibration_entry data = Some cal"
  shows "load_config (Some data) =
           Inr \<lparr>host = h, port = p, timeout = t, unit_id = u, registers = rs, calibration = cal\<rparr>"
  using assms by (simp add: load_config_def entry_def and_then_def)

lemma init_issued: "load_config file = Inr config \<Longrightarrow> issued (init file) w = [Connect]"
  by (cases "replies w (length (wire w))")
     (simp_all add: init_def connect_def transport_def io_defs issued_def)

lemma init_completed:
  "load_config file = Inr config \<Longrightarrow> replies w (length (wire w)) = Completed \<Longrightarrow>
   fst (init file w) = Inr config"
  by (simp add: init_def connect_def transport_def io_defs)

lemma get_status_missing:
  "registers config ''status_word'' = None \<Longrightarrow>
   get_status config w = (Inl (KeyError ''status_word''), w)"
  by (simp add: get_status_def io_defs)

text \<open>
  Claim C4, as stated, fails: \<^verbatim>\<open>_load_config\<close> stores the register map without
  looking at its names. With a document whose register map has no \<^verbatim>\<open>status_word\<close>
  and a transport that accepts the connection, the constructor calls \<^verbatim>\<open>connect()\<close>
  and returns a client.
\<close>

theorem construction_ignores_missing_status_word_counterexample:
  "registers_without_status ''status_word'' = None
 \<and> registers_entry (example_yaml registers_without_status) = Some registers_without_status
 \<and> fst (init (Some (example_yaml registers_without_status)) (answering Completed)) =
       Inr config_without_status
 \<and> wire (snd (init (Some (example_yaml registers_without_status)) (answering Completed))) =
       [Connect]"
  by (simp add: registers_without_status_def example_yaml_def config_without_status_def
      answering_def init_def load_config_def entry_def and_then_def connect_def transport_def
      io_defs)

text \<open>
  Claim C4, amended. For a document with all its sections whose register map is missing
  \<^verbatim>\<open>status_word\<close>: loading the configuration succeeds, construction goes on to
  \<^verbatim>\<open>connect()\<close> (its only call on the transport) and yields the client when the
  connection is accepted; the missing entry is reported only by \<^verbatim>\<open>get_status\<close>, as a
  \<^verbatim>\<open>KeyError\<close> raised before any read is issued.
\<close>

theorem missing_status_word_surfaces_in_get_status:
  assumes "rcs_entry data = Some s" and "host_entry s = Some h" and "port_entry s = Some p"
    and "timeout_entry s = Some t" and "unit_id_entry s = Some u"
    and "registers_entry data = Some rs" and "calibration_entry data = Some cal"
    and "rs ''status_word'' = None"
    and "config = \<lparr>host = h, port = p, timeout = t, unit_id = u, registers = rs, calibration = cal\<rparr>"
  shows "load_config (Some data) = Inr config
       \<and> issued (init (Some data)) w = [Connect]
       \<and> (replies w (length (wire w)) = Completed \<longrightarrow> fst (init (Some data) w) = Inr config)
       \<and> fst (get_status config w') = Inl (KeyError ''status_word'')
       \<and> issued (get_status config) w' = []"
proof -
  have l: "load_config (Some data) = Inr config"
    using assms load_config_sections [of data s h p t u rs cal] by simp
  have r: "registers config ''status_word'' = None"
    using assms by simp
  show ?thesis
    using l init_issued [OF l, of w] init_completed [OF l, of w] get_status_missing [OF r, of w']
    by (simp add: issued_def)
qed

theorem missing_status_word_surfaces_in_get_status_witness:
  "load_config (Some (example_yaml registers_without_status)) = Inr config_without_status
 \<and> issued (init (Some (example_yaml registers_without_status))) (answering Completed) = [Connect]
 \<and> fst (init (Some (example_yaml registers_without_status)) (answering Completed)) =
       Inr config_without_status
 \<and> fst (get_status config_without_status (answering Completed)) = Inl (KeyError ''status_word'')
 \<and> issued (get_status config_without_status) (answering Completed) = []"
  using missing_status_word_surfaces_in_get_status
    [of "example_yaml registers_without_status"
        "\<lparr>host_entry = Some ''192.168.0.10'', port_entry = Some 502,
          timeout_entry = Some 3, unit_id_entry = Some 1\<rparr>"
        "''192.168.0.10''" 502 3 1 registers_without_status example_calibration
        config_without_status "answering Completed" "answering Completed"]
  by (simp add: example_yaml_def config_without_status_def registers_without_status_def
      answering_def)

subsection \<open>Moves\<close>

lemma encodeFloat32_examples:
  "encodeFloat32 0x43960000 = [0, 0x4396]" "encodeFloat32 0 = [0, 0]"
  "encodeFloat32 0xC0490FDB = [0x0FDB, 0xC049]"
  by (simp_all add: encodeFloat32_registers)

lemma move_to_xyz_floats:
  assumes "registers config ''target_x'' = Some tx"
    and "registers config ''target_y'' = Some ty"
    and "registers config ''target_z'' = Some tz"
    and "registers config ''program_number'' = Some pn"
    and "registers config ''start_program'' = Some sp"
    and "\<not> raises (replies w (length (wire w)))"
    and "\<not> raises (replies w (Suc (length (wire w))))"
    and "\<not> raises (replies w (Suc (Suc (length (wire w)))))"
    and "\<not> raises (replies w (Suc (Suc (Suc (length (wire w))))))"
    and "\<not> raises (replies w (Suc (Suc (Suc (Suc (length (wire w)))))))"
    and "\<not> raises (replies w (Suc (Suc (Suc (Suc (Suc (length (wire w))))))))"
  shows "move_to_xyz config (PyFloat x) (PyFloat y) (PyFloat z) w =
           (Inr (),
            w\<lparr>wire := wire w @
                 [WriteRegisters tx (encodeFloat32 x) (unit_id config),
                  WriteRegisters ty (encodeFloat32 y) (unit_id config),
                  WriteRegisters tz (encodeFloat32 z) (unit_id config),
                  WriteRegister pn 1 (unit_id config),
                  WriteRegister sp 1 (unit_id config),
                  WriteRegister sp 0 (unit_id config)],
              console := console w @
                 [Sleep 100, Info (StartedProgram 1),
                  Info (MoveCommand (PyFloat x) (PyFloat y) (PyFloat z))]\<rparr>)"
  using assms
  by (simp add: move_to_xyz_def start_program_def io_defs write_float_ok write_int_ok
      as_number_def)

lemma start_program_after_floats:
  assumes "registers config ''program_number'' = Some pn"
    and "registers config ''start_program'' = Some sp"
    and "wire w3 = wire w @ [a, b, c]"
    and "replies w3 = replies w"
    and "\<not> raises (replies w (Suc (Suc (Suc (length (wire w))))))"
    and "\<not> raises (replies w (Suc (Suc (Suc (Suc (length (wire w)))))))"
  shows "issued (start_program config 1) w3 =
           [WriteRegister pn 1 (unit_id config), WriteRegister sp 1 (unit_id config),
            WriteRegister sp 0 (unit_id config)]"
proof -
  have "\<not> raises (replies w3 (length (wire w3)))"
    and "\<not> raises (replies w3 (Suc (length (wire w3))))"
    using assms by simp_all
  then show ?thesis
    using start_program_high_returns [OF assms(1) assms(2), of w3 1] by simp
qed

text \<open>
  Claim C5, as stated, fails for a coordinate beyond the single-precision range:
  \<^verbatim>\<open>struct.pack\<close> raises \<^verbatim>\<open>OverflowError\<close> inside \<^verbatim>\<open>_write_float\<close> before anything
  is written. With such an \<open>x\<close>, \<^verbatim>\<open>move_to_xyz\<close> issues no operation at all; with such
  a \<open>y\<close>, it issues the write of \<open>x\<close> only. The transport here completes every call.
\<close>

theorem move_to_xyz_huge_coordinate_counterexample:
  "fst (move_to_xyz example_config PyHuge (PyFloat 0) (PyFloat 0) (answering Completed)) =
     Inl OverflowError
 \<and> wire (snd (move_to_xyz example_config PyHuge (PyFloat 0) (PyFloat 0) (answering Completed))) = []
 \<and> fst (move_to_xyz example_config (PyFloat 0) PyHuge (PyFloat 0) (answering Completed)) =
     Inl OverflowError
 \<and> wire (snd (move_to_xyz example_config (PyFloat 0) PyHuge (PyFloat 0) (answering Completed))) =
     [WriteRegisters 200 [0, 0] 1]"
  by (simp add: move_to_xyz_def write_float_def transport_def io_defs example_defs
      encodeFloat32_examples)

text \<open>
  Claim C5, amended. With the five registers in the map and a transport that raises at
  none of the six calls: for all \<open>x\<close>, \<open>y\<close>, \<open>z\<close> that \<^verbatim>\<open>struct.pack\<close> stores as
  32-bit floats, \<^verbatim>\<open>move_to_xyz(x, y, z)\<close> returns normally and issues one
  \<^verbatim>\<open>write_registers\<close> with the payload of \<open>x\<close> to \<^verbatim>\<open>target_x\<close>, one with \<open>y\<close> to
  \<^verbatim>\<open>target_y\<close>, one with \<open>z\<close> to \<^verbatim>\<open>target_z\<close>, and then exactly the calls of
  \<^verbatim>\<open>start_program(1)\<close> (the program number 1 and the pulse), and nothing else. A
  coordinate that is a finite float beyond the single-precision range makes
  \<^verbatim>\<open>_write_float\<close> raise \<^verbatim>\<open>OverflowError\<close> before its write: \<^verbatim>\<open>move_to_xyz\<close> then
  ends with only the writes of the coordinates before it issued (none for \<open>x\<close>, one for
  \<open>y\<close>, two for \<open>z\<close>), and \<^verbatim>\<open>start_program(1)\<close> is not invoked.
\<close>

theorem move_to_xyz_four_operations_for_single_precision:
  assumes tx: "registers config ''target_x'' = Some tx"
    and ty: "registers config ''target_y'' = Some ty"
    and tz: "registers config ''target_z'' = Some tz"
    and pn: "registers config ''program_number'' = Some pn"
    and sp: "registers config ''start_program'' = Some sp"
    and q: "\<forall>n<6. \<not> raises (replies w (length (wire w) + n))"
  shows "fst (move_to_xyz config (PyFloat x) (PyFloat y) (PyFloat z) w) = Inr ()
       \<and> issued (move_to_xyz config (PyFloat x) (PyFloat y) (PyFloat z)) w =
           [WriteRegisters tx (encodeFloat32 x) (unit_id config),
            WriteRegisters ty (encodeFloat32 y) (unit_id config),
            WriteRegisters tz (encodeFloat32 z) (unit_id config)]
           @ issued (start_program config 1)
               (w\<lparr>wire := wire w @ [WriteRegisters tx (encodeFloat32 x) (unit_id config),
                                     WriteRegisters ty (encodeFloat32 y) (unit_id config),
                                     WriteRegisters tz (encodeFloat32 z) (unit_id config)]\<rparr>)
       \<and> issued (move_to_xyz config (PyFloat x) (PyFloat y) (PyFloat z)) w =
           [WriteRegisters tx (encodeFloat32 x) (unit_id config),
            WriteRegisters ty (encodeFloat32 y) (unit_id config),
            WriteRegisters tz (encodeFloat32 z) (unit_id config),
            WriteRegister pn 1 (unit_id config),
            WriteRegister sp 1 (unit_id config),
            WriteRegister sp 0 (unit_id config)]
       \<and> fst (move_to_xyz config PyHuge y' z' w) = Inl OverflowError
       \<and> issued (move_to_xyz config PyHuge y' z') w = []
       \<and> fst (move_to_xyz config (PyFloat x) PyHuge z' w) = Inl OverflowError
       \<and> issued (move_to_xyz config (PyFloat x) PyHuge z') w =
           [WriteRegisters tx (encodeFloat32 x) (unit_id config)]
       \<and> fst (move_to_xyz config (PyFloat x) (PyFloat y) PyHuge w) = Inl OverflowError
       \<and> issued (move_to_xyz config (PyFloat x) (PyFloat y) PyHuge) w =
           [WriteRegisters tx (encodeFloat32 x) (unit_id config),
            WriteRegisters ty (encodeFloat32 y) (unit_id config)]"
proof -
  have q0: "\<not> raises (replies w (length (wire w)))"
    using q [rule_format, of 0] by simp
  have q1: "\<not> raises (replies w (Suc (length (wire w))))"
    using q [rule_format, of 1] by simp
  have q2: "\<not> raises (replies w (Suc (Suc (length (wire w)))))"
    using q [rule_format, of 2] by simp
  have q3: "\<not> raises (replies w (Suc (Suc (Suc (length (wire w))))))"
    using q [rule_format, of 3] by (simp add: numeral_3_eq_3)
  have q4: "\<not> raises (replies w (Suc (Suc (Suc (Suc (length (wire w)))))))"
    using q [rule_format, of 4] by (simp add: eval_nat_numeral)
  have q5: "\<not> raises (replies w (Suc (Suc (Suc (Suc (Suc (length (wire w))))))))"
    using q [rule_format, of 5] by (simp add: eval_nat_numeral)
  note m = move_to_xyz_floats [OF tx ty tz pn sp q0 q1 q2 q3 q4 q5, of x y z]
  have a: "fst (move_to_xyz config (PyFloat x) (PyFloat y) (PyFloat z) w) = Inr ()"
    using m by simp
  have c: "issued (move_to_xyz config (PyFloat x) (PyFloat y) (PyFloat z)) w =
           [WriteRegisters tx (encodeFloat32 x) (unit_id config),
            WriteRegisters ty (encodeFloat32 y) (unit_id config),
            WriteRegisters tz (encodeFloat32 z) (unit_id config),
            WriteRegister pn 1 (unit_id config),
            WriteRegister sp 1 (unit_id config),
            WriteRegister sp 0 (unit_id config)]"
    using m by (simp add: issued_def)
  have s: "issued (start_program config 1)
               (w\<lparr>wire := wire w @ [WriteRegisters tx (encodeFloat32 x) (unit_id config),
                                     WriteRegisters ty (encodeFloat32 y) (unit_id config),
                                     WriteRegisters tz (encodeFloat32 z) (unit_id config)]\<rparr>) =
           [WriteRegister pn 1 (unit_id config), WriteRegister sp 1 (unit_id config),
            WriteRegister sp 0 (unit_id config)]"
    by (rule start_program_after_floats [OF pn sp _ _ q3 q4]) simp_all
  have b: "issued (move_to_xyz config (PyFloat x) (PyFloat y) (PyFloat z)) w =
           [WriteRegisters tx (encodeFloat32 x) (unit_id config),
            WriteRegisters ty (encodeFloat32 y) (unit_id config),
            WriteRegisters tz (encodeFloat32 z) (unit_id config)]
           @ issued (start_program config 1)
               (w\<lparr>wire := wire w @ [WriteRegisters tx (encodeFloat32 x) (unit_id config),
                                     WriteRegisters ty (encodeFloat32 y) (unit_id config),
                                     WriteRegisters tz (encodeFloat32 z) (unit_id config)]\<rparr>)"
    unfolding s c by simp
  have hx: "move_to_xyz config PyHuge y' z' w = (Inl OverflowError, w)"
    using tx by (simp add: move_to_xyz_def io_defs write_float_huge)
  have hy: "move_to_xyz config (PyFloat x) PyHuge z' w =
      (Inl OverflowError,
       w\<lparr>wire := wire w @ [WriteRegisters tx (encodeFloat32 x) (unit_id config)]\<rparr>)"
    using tx ty q0 by (simp add: move_to_xyz_def io_defs write_float_huge write_float_ok)
  have hz: "move_to_xyz config (PyFloat x) (PyFloat y) PyHuge w =
      (Inl OverflowError,
       w\<lparr>wire := wire w @ [WriteRegisters tx (encodeFloat32 x) (unit_id config),
                             WriteRegisters ty (encodeFloat32 y) (unit_id config)]\<rparr>)"
    using tx ty tz q0 q1 by (simp add: move_to_xyz_def io_defs write_float_huge write_float_ok)
  show ?thesis
    using a b c by (simp add: hx hy hz issued_def)
qed

theorem move_to_xyz_four_operations_for_single_precision_witness:
  "fst (move_to_xyz example_config (PyFloat 0x43960000) (PyFloat 0) (PyFloat 0xC0490FDB)
          (answering Completed)) = Inr ()
 \<and> issued (move_to_xyz example_config (PyFloat 0x43960000) (PyFloat 0) (PyFloat 0xC0490FDB))
      (answering Completed) =
      [WriteRegisters 200 [0, 0x4396] 1, WriteRegisters 202 [0, 0] 1,
       WriteRegisters 204 [0x0FDB, 0xC049] 1,
       WriteRegister 107 1 1, WriteRegister 108 1 1, WriteRegister 108 0 1]
 \<and> issued (move_to_xyz example_config (PyFloat 0x43960000) (PyFloat 0) PyHuge)
      (answering Completed) =
      [WriteRegisters 200 [0, 0x4396] 1, WriteRegisters 202 [0, 0] 1]"
proof -
  have r: "registers example_config ''target_x'' = Some 200"
    "registers example_config ''target_y'' = Some 202"
    "registers example_config ''target_z'' = Some 204"
    "registers example_config ''program_number'' = Some 107"
    "registers example_config ''start_program'' = Some 108"
    by (simp_all add: example_defs)
  have q: "\<forall>n<6. \<not> raises (replies (answering Completed)
                        (length (wire (answering Completed)) + n))"
    by (simp add: answering_def)
  note t = move_to_xyz_four_operations_for_single_precision
      [OF r q, of "0x43960000" 0 "0xC0490FDB" PyHuge PyHuge]
  show ?thesis
    using t [THEN conjunct1] t [THEN conjunct2, THEN conjunct2, THEN conjunct1]
      t [THEN conjunct2, THEN conjunct2, THEN conjunct2, THEN conjunct2, THEN conjunct2,
         THEN conjunct2, THEN conjunct2, THEN conjunct2]
    by (simp add: encodeFloat32_examples example_config_def)
qed

text \<open>
  Claim C6. When \<^verbatim>\<open>calibration.home_position\<close> is a list of three coordinates,
  \<^verbatim>\<open>go_home()\<close> issues the same calls as \<^verbatim>\<open>move_to_xyz\<close> with these coordinates,
  from every world (also one whose transport raises), and ends the same way; it only
  adds a log record.
\<close>

theorem go_home_same_writes_as_move_to_xyz:
  assumes "calibration config ''home_position'' = Some (PyList [x, y, z])"
  shows "issued (go_home config) w = issued (move_to_xyz config x y z) w
       \<and> wire (snd (go_home config w)) = wire (snd (move_to_xyz config x y z w))
       \<and> fst (go_home config w) = fst (move_to_xyz config x y z w)"
proof -
  have "go_home config w = io_then (move_to_xyz config x y z) (emit (Info ReturningHome)) w"
    using assms by (simp add: go_home_def getitem_def io_bind_def io_return_def lookup_def)
  then show ?thesis
    by (simp add: issued_def then_emit_wire then_emit_fst)
qed

theorem go_home_same_writes_as_move_to_xyz_witness:
  "calibration example_config ''home_position'' =
     Some (PyList [PyFloat 0x43960000, PyFloat 0, PyFloat 0x43FA0000])
 \<and> issued (go_home example_config) (answering Completed) =
     issued (move_to_xyz example_config (PyFloat 0x43960000) (PyFloat 0) (PyFloat 0x43FA0000))
       (answering Completed)
 \<and> issued (go_home example_config) (raising_at 1) =
     issued (move_to_xyz example_config (PyFloat 0x43960000) (PyFloat 0) (PyFloat 0x43FA0000))
       (raising_at 1)"
  using go_home_same_writes_as_move_to_xyz
      [of example_config "PyFloat 0x43960000" "PyFloat 0" "PyFloat 0x43FA0000" "answering Completed"]
    go_home_same_writes_as_move_to_xyz
      [of example_config "PyFloat 0x43960000" "PyFloat 0" "PyFloat 0x43FA0000" "raising_at 1"]
  by (simp add: example_config_def example_calibration_def)

subsection \<open>Reading\<close>

lemma binary_value_append:
  "binary_value acc (xs @ ys) =
     (case binary_value acc xs of None \<Rightarrow> None | Some a \<Rightarrow> binary_value a ys)"
  by (induction xs arbitrary: acc) simp_all

lemma digit_char_bit: "d < 2 \<Longrightarrow> digit_char d = (if d = 0 then CHR ''0'' else CHR ''1'')"
proof -
  assume "d < 2"
  then have "d = 0 \<or> d = 1" by arith
  then show ?thesis by (auto simp: digit_char_def)
qed

lemma binary_value_digits2: "binary_value 0 (digits2 n) = Some n"
proof (induction n rule: digits2.induct)
  case (1 n)
  show ?case
  proof (cases "n < 2")
    case True
    then have "digits2 n = [digit_char n]" by (subst digits2.simps) simp
    with True show ?thesis
      by (simp add: digit_char_bit)
  next
    case False
    have "n mod 2 < 2" by simp
    then have d: "digit_char (n mod 2) = (if n mod 2 = 0 then CHR ''0'' else CHR ''1'')"
      by (rule digit_char_bit)
    have e: "digits2 n = digits2 (n div 2) @ [digit_char (n mod 2)]"
      using False by (subst digits2.simps) simp
    have n: "2 * (n div 2) + n mod 2 = n" by simp
    have "binary_value 0 (digits2 n) = binary_value (n div 2) [digit_char (n mod 2)]"
      using "1.IH" [OF False] by (simp add: e binary_value_append)
    also have "\<dots> = Some n"
    proof (cases "n mod 2 = 0")
      case True
      with n have "2 * (n div 2) = n" by simp
      with True d show ?thesis by simp
    next
      case False
      then have "n mod 2 = 1" by simp
      with n have "2 * (n div 2) + 1 = n" by simp
      with False d show ?thesis by simp
    qed
    finally show ?thesis .
  qed
qed

lemma digits2_nonempty: "\<exists>c cs. digits2 n = c # cs"
proof (cases "n < 2")
  case True
  then have "digits2 n = [digit_char n]" by (subst digits2.simps) simp
  then show ?thesis by simp
next
  case False
  then have "digits2 n = digits2 (n div 2) @ [digit_char (n mod 2)]"
    by (subst digits2.simps) simp
  then show ?thesis by (cases "digits2 (n div 2)") simp_all
qed

lemma int_of_binary_positive:
  "ds \<noteq> [] \<Longrightarrow> int_of_binary (''0b'' @ ds) = map_option int (binary_value 0 ds)"
  by (cases ds) simp_all

lemma int_of_binary_negative:
  "ds \<noteq> [] \<Longrightarrow>
   int_of_binary (''-0b'' @ ds) = map_option (\<lambda>n. - int n) (binary_value 0 ds)"
  by (cases ds) simp_all

lemma int_of_binary_bin: "int_of_binary (bin v) = Some v"
proof -
  have ne: "digits2 n \<noteq> []" for n
    using digits2_nonempty [of n] by auto
  show ?thesis
  proof (cases "v < 0")
    case True
    then have "int_of_binary (bin v) =
        map_option (\<lambda>n. - int n) (binary_value 0 (digits2 (nat (- v))))"
      unfolding bin_def using int_of_binary_negative [OF ne] by simp
    with True show ?thesis by (simp add: binary_value_digits2)
  next
    case False
    then have "int_of_binary (bin v) = map_option int (binary_value 0 (digits2 (nat v)))"
      unfolding bin_def using int_of_binary_positive [OF ne] by simp
    with False show ?thesis by (simp add: binary_value_digits2)
  qed
qed

lemma bin_examples:
  "bin 0 = ''0b0''" "bin 1 = ''0b1''" "bin 255 = ''0b11111111''"
  "bin 65535 = ''0b1111111111111111''"
  by (simp_all add: bin_def digits2.simps digit_char_def)

lemma read_int_registers:
  "replies w (length (wire w)) = Registers (v # rest) \<Longrightarrow>
   read_int c a w = (Inr v, w\<lparr>wire := wire w @ [ReadHoldingRegisters a 1 (unit_id c)]\<rparr>)"
  by (simp add: read_int_def transport_def io_defs)

text \<open>
  Claim C7. When the response to the read has \<^verbatim>\<open>isError()\<close> true, \<^verbatim>\<open>_read_int\<close>
  returns no value: it raises \<^verbatim>\<open>ValueError\<close> with the message
  \<^verbatim>\<open>Error reading register <address>: <response>\<close>, which holds the decimal text of the
  failing address and the text of the response. One read was issued. This failure
  differs from the one seen when the transport itself raises: that exception is
  propagated as it is.
\<close>

theorem read_int_exception_response:
  assumes "replies w (length (wire w)) = ExceptionResponse detail"
  shows "fst (read_int config address w) =
           Inl (ValueError (''Error reading register '' @ str_int address @ '': '' @ detail))
       \<and> issued (read_int config address) w = [ReadHoldingRegisters address 1 (unit_id config)]
       \<and> (\<forall>w' e. replies w' (length (wire w')) = Raises e \<longrightarrow>
             fst (read_int config address w') = Inl (ModbusException e)
           \<and> fst (read_int config address w') \<noteq> fst (read_int config address w))"
  using assms by (simp add: read_int_def transport_def io_defs issued_def)

theorem read_int_exception_response_witness:
  "fst (read_int example_config 300
          (answering (ExceptionResponse ''Exception Response(131, 3, IllegalAddress)''))) =
     Inl (ValueError ''Error reading register 300: Exception Response(131, 3, IllegalAddress)'')
 \<and> issued (read_int example_config 300)
      (answering (ExceptionResponse ''Exception Response(131, 3, IllegalAddress)'')) =
     [ReadHoldingRegisters 300 1 1]
 \<and> fst (read_int example_config 300 (raising_at 0)) = Inl (ModbusException ''connection lost'')"
  using read_int_exception_response
      [of "answering (ExceptionResponse ''Exception Response(131, 3, IllegalAddress)'')"
          "''Exception Response(131, 3, IllegalAddress)''" example_config 300]
  by (simp add: example_defs str_int_300)

lemma get_status_returns:
  assumes "registers config ''status_word'' = Some a"
    and "replies w (length (wire w)) = Registers (v # rest)"
  shows "fst (get_status config w) = Inr \<lparr>status_word = PyInt v, binary = PyStr (bin v)\<rparr>
       \<and> int_of_binary (bin v) = Some v
       \<and> issued (get_status config) w = [ReadHoldingRegisters a 1 (unit_id config)]"
  using assms
  by (simp add: get_status_def io_defs read_int_registers int_of_binary_bin issued_def)

lemma str_int_examples:
  "str_int 0 = ''0''" "str_int 1 = ''1''" "str_int 255 = ''255''" "str_int 65535 = ''65535''"
  by (simp_all add: str_int_def digits10.simps digit_char_def)

text \<open>
  Claim C8 at the inputs it names. For the status words 0, 1, 255 and 65535
  \<^verbatim>\<open>get_status()\<close> returns under \<^verbatim>\<open>binary\<close> the texts \<^verbatim>\<open>0b0\<close>, \<^verbatim>\<open>0b1\<close>,
  \<^verbatim>\<open>0b11111111\<close> and \<^verbatim>\<open>0b1111111111111111\<close>, which denote these values. Under
  \<^verbatim>\<open>status_word\<close> it returns the int read from the register, not its decimal text
  \<^verbatim>\<open>0\<close>, \<^verbatim>\<open>1\<close>, \<^verbatim>\<open>255\<close>, \<^verbatim>\<open>65535\<close>, although the method is annotated
  \<^verbatim>\<open>-> Dict[str, str]\<close>.
\<close>

theorem get_status_returns_int_for_decimal_text:
  "fst (get_status example_config (answering (Registers [0]))) =
      Inr \<lparr>status_word = PyInt 0, binary = PyStr ''0b0''\<rparr>
 \<and> fst (get_status example_config (answering (Registers [1]))) =
      Inr \<lparr>status_word = PyInt 1, binary = PyStr ''0b1''\<rparr>
 \<and> fst (get_status example_config (answering (Registers [255]))) =
      Inr \<lparr>status_word = PyInt 255, binary = PyStr ''0b11111111''\<rparr>
 \<and> fst (get_status example_config (answering (Registers [65535]))) =
      Inr \<lparr>status_word = PyInt 65535, binary = PyStr ''0b1111111111111111''\<rparr>
 \<and> fst (get_status example_config (answering (Registers [255]))) \<noteq>
      Inr \<lparr>status_word = PyStr (str_int 255), binary = PyStr (bin 255)\<rparr>
 \<and> str_int 255 = ''255''
 \<and> int_of_binary ''0b0'' = Some 0 \<and> int_of_binary ''0b1'' = Some 1
 \<and> int_of_binary ''0b11111111'' = Some 255
 \<and> int_of_binary ''0b1111111111111111'' = Some 65535"
  using get_status_returns [of example_config 300 "answering (Registers [0])" 0 "[]"]
    get_status_returns [of example_config 300 "answering (Registers [1])" 1 "[]"]
    get_status_returns [of example_config 300 "answering (Registers [255])" 255 "[]"]
    get_status_returns [of example_config 300 "answering (Registers [65535])" 65535 "[]"]
  by (simp add: example_defs bin_examples str_int_examples)

subsection \<open>Closing\<close>









text \<open>
  The entry point against a controller that refuses the connection: the constructor
  raises \<^verbatim>\<open>ConnectionError\<close>, \<^verbatim>\<open>main\<close> logs it and goes on with \<^verbatim>\<open>rcs\<close> unbound, and
  the \<^verbatim>\<open>rcs.close()\<close> of its \<^verbatim>\<open>finally\<close> block raises \<^verbatim>\<open>UnboundLocalError\<close>, which
  leaves \<^verbatim>\<open>main\<close>; no client exists and no close reaches the transport.
\<close>

lemma main_after_refused_connection:
  "fst (main (Some (example_yaml example_registers)) None (answering Refused)) =
     Inl (UnboundLocalError ''rcs'')
 \<and> wire (snd (main (Some (example_yaml example_registers)) None (answering Refused))) = [Connect]
 \<and> console (snd (main (Some (example_yaml example_registers)) None (answering Refused))) =
     [Err (ModbusClientError (ConnectionError ''Failed to connect to RCS: 192.168.0.10:502'')),
      Err (RuntimeError (UnboundLocalError ''rcs''))]"
  by (simp add: main_def catch_def bound_def init_def load_config_def entry_def and_then_def
      connect_def transport_def io_defs example_yaml_def answering_def str_int_502)

subsection \<open>Calibration\<close>

lemma cone_step_wire: "wire (snd (cone_step i p w)) = wire w"
  by (auto simp: cone_step_def as_number_def io_defs input_line_def
      split: pyval.splits list.splits sum.splits)

lemma cone_loop_wire: "wire (snd (cone_loop i ps w)) = wire w"
proof (induction ps arbitrary: i w)
  case Nil
  then show ?case by (simp add: io_return_def)
next
  case (Cons p ps)
  show ?case
  proof (cases "cone_step i p w")
    case (Pair r w1)
    then have w1: "wire w1 = wire w" using cone_step_wire [of i p w] by simp
    show ?thesis
    proof (cases r)
      case (Inl e)
      with Pair w1 show ?thesis by (simp add: io_then_def io_bind_def)
    next
      case (Inr u)
      with Pair w1 Cons.IH [of "Suc i" w1] show ?thesis by (simp add: io_then_def io_bind_def)
    qed
  qed
qed

text \<open>
  Claim C10. \<^verbatim>\<open>calibrate_base()\<close> makes no call on the transport, for every
  configuration and every world: whether the cone list is missing, malformed or well
  formed, and whether or not the operator's input runs out, the calls recorded after it
  are those recorded before.
\<close>

theorem calibrate_base_no_register_traffic:
  "issued (calibrate_base config) w = [] \<and> wire (snd (calibrate_base config w)) = wire w"
proof -
  have "wire (snd (calibrate_base config w)) = wire w"
  proof (cases "calibration config ''cone_positions''")
    case None
    then show ?thesis by (simp add: calibrate_base_def io_defs)
  next
    case (Some cones)
    show ?thesis
    proof (cases cones)
      case (PyFloat f)
      with Some show ?thesis by (simp add: calibrate_base_def io_defs)
    next
      case PyHuge
      with Some show ?thesis by (simp add: calibrate_base_def io_defs)
    next
      case (PyList points)
      let ?w0 = "w\<lparr>console := console w @ [Info CalibrationStarting]\<rparr>"
      have "calibrate_base config w =
              io_then (cone_loop 0 points) (emit (Info CalibrationRecorded)) ?w0"
        using Some PyList
        by (simp add: calibrate_base_def io_bind_def io_then_def io_return_def lookup_def emit_def)
      then show ?thesis using cone_loop_wire [of 0 points ?w0]
        by (simp add: then_emit_wire)
    qed
  qed
  then show ?thesis by (simp add: issued_def)
qed

end

